theory Spec2Isabelle
  imports Main "HOL-Library.Word"
begin

section \<open>Bytes, strings and the library primitives\<close>

text \<open>
  Python \<open>bytes\<close> are lists of 8-bit words, Python \<open>str\<close> is \<open>string\<close>.
  The cryptographic primitives and codecs are library code (argon2, cryptography,
  PyNaCl, the \<open>str\<close>/\<open>bytes\<close> codecs); they are fields of a record that every
  operation of the program takes as its first argument. An exception of a primitive is
  the value \<open>None\<close>.
\<close>

type_synonym byte = "8 word"
type_synonym bytes = "byte list"

record crypto_lib =
  hash_secret_raw :: "bytes \<Rightarrow> bytes \<Rightarrow> nat \<Rightarrow> bytes"
    \<comment> \<open>Argon2id: secret, salt, hash\_len (costs are the constants of CryptoService)\<close>
  gcm_encrypt :: "bytes \<Rightarrow> bytes \<Rightarrow> bytes \<Rightarrow> bytes \<Rightarrow> bytes \<times> bytes"
    \<comment> \<open>AES-GCM encryptor: key, nonce, associated data, data; gives (ciphertext, tag)\<close>
  gcm_decrypt :: "bytes \<Rightarrow> bytes \<Rightarrow> bytes \<Rightarrow> bytes \<Rightarrow> bytes \<Rightarrow> bytes option"
    \<comment> \<open>AES-GCM decryptor: key, nonce, tag, associated data, ciphertext; None is InvalidTag\<close>
  str_encode :: "string \<Rightarrow> bytes"
    \<comment> \<open>\<open>s.encode('utf-8')\<close>\<close>
  bytes_decode :: "bytes \<Rightarrow> string option"
    \<comment> \<open>\<open>b.decode('utf-8')\<close>; None is UnicodeDecodeError\<close>
  b64encode :: "bytes \<Rightarrow> string"
    \<comment> \<open>\<open>Base64Encoder.encode(b).decode('utf-8')\<close>\<close>
  b64decode :: "string \<Rightarrow> bytes option"
    \<comment> \<open>\<open>Base64Encoder.decode(s)\<close>; None is a decoding error\<close>
  public_of :: "bytes \<Rightarrow> bytes"
    \<comment> \<open>\<open>private_key.public_key\<close>\<close>
  box_encrypt :: "bytes \<Rightarrow> bytes \<Rightarrow> bytes \<Rightarrow> bytes \<Rightarrow> bytes"
    \<comment> \<open>\<open>Box(sk, pk).encrypt(plaintext, nonce)\<close>\<close>
  box_decrypt :: "bytes \<Rightarrow> bytes \<Rightarrow> bytes \<Rightarrow> bytes option"
    \<comment> \<open>\<open>Box(sk, pk).decrypt(encrypted)\<close>; None is CryptoError\<close>

datatype error = ValueError | InvalidTag | OverflowError

text \<open>The slice \<open>xs[i:j]\<close> for \<open>0 \<le> i \<le> j\<close>: it never raises, it clamps.\<close>

definition slice :: "'a list \<Rightarrow> nat \<Rightarrow> nat \<Rightarrow> 'a list" where
  "slice xs i j = take (j - i) (drop i xs)"

text \<open>\<open>n.to_bytes(2, byteorder='big')\<close> raises OverflowError from 65536 on.\<close>

definition to_bytes2 :: "nat \<Rightarrow> bytes option" where
  "to_bytes2 n = (if n < 65536 then Some [of_nat (n div 256), of_nat (n mod 256)] else None)"

text \<open>\<open>int.from_bytes(b, byteorder='big')\<close>.\<close>

definition from_bytes_big :: "bytes \<Rightarrow> nat" where
  "from_bytes_big b = foldl (\<lambda>acc x. 256 * acc + unat x) 0 b"

section \<open>Container codec (flightcodev2CLI.py, CryptoService)\<close>

definition APP_VERSION :: string where "APP_VERSION = ''2.0''"
definition SALT_SIZE :: nat where "SALT_SIZE = 16"
definition NONCE_SIZE :: nat where "NONCE_SIZE = 12"
definition TAG_SIZE :: nat where "TAG_SIZE = 16"
definition KEY_SIZE :: nat where "KEY_SIZE = 32"

definition derive_key :: "crypto_lib \<Rightarrow> string \<Rightarrow> bytes \<Rightarrow> nat \<Rightarrow> error + bytes" where
  "derive_key L password salt key_size =
     (if key_size \<notin> {16, 24, 32} then Inl ValueError
      else Inr (hash_secret_raw L (str_encode L password) salt key_size))"

text \<open>
  Line 127 of \<open>encrypt_data\<close>: the associated data, built from the application version and
  \<open>datetime.now().isoformat()\<close>, which is the argument \<open>now_iso\<close>.
\<close>

definition file_metadata :: "crypto_lib \<Rightarrow> string \<Rightarrow> bytes" where
  "file_metadata L now_iso = str_encode L (''FlightCode v'' @ APP_VERSION @ '' - '' @ now_iso)"

text \<open>
  \<open>encrypt_data\<close>: the two draws of \<open>os.urandom\<close> are the arguments \<open>salt\<close> and
  \<open>nonce\<close>.
\<close>

definition encrypt_data ::
  "crypto_lib \<Rightarrow> bytes \<Rightarrow> bytes \<Rightarrow> string \<Rightarrow> bytes \<Rightarrow> string \<Rightarrow> error + bytes" where
  "encrypt_data L salt nonce now_iso data password =
     (case derive_key L password salt KEY_SIZE of
        Inl e \<Rightarrow> Inl e
      | Inr key \<Rightarrow>
          (let metadata = file_metadata L now_iso;
               (ciphertext, tag) = gcm_encrypt L key nonce metadata data
           in case to_bytes2 (length metadata) of
                None \<Rightarrow> Inl OverflowError
              | Some metadata_length \<Rightarrow>
                  Inr (salt @ nonce @ tag @ metadata_length @ metadata @ ciphertext)))"

definition decrypt_data :: "crypto_lib \<Rightarrow> bytes \<Rightarrow> string \<Rightarrow> error + bytes" where
  "decrypt_data L encrypted_data password =
     (if length encrypted_data < SALT_SIZE + NONCE_SIZE + TAG_SIZE + 2 then Inl ValueError
      else
        (let salt = slice encrypted_data 0 SALT_SIZE;
             nonce = slice encrypted_data SALT_SIZE (SALT_SIZE + NONCE_SIZE);
             tag = slice encrypted_data (SALT_SIZE + NONCE_SIZE)
                     (SALT_SIZE + NONCE_SIZE + TAG_SIZE);
             metadata_length_bytes = slice encrypted_data (SALT_SIZE + NONCE_SIZE + TAG_SIZE)
                     (SALT_SIZE + NONCE_SIZE + TAG_SIZE + 2);
             metadata_length = from_bytes_big metadata_length_bytes;
             metadata = slice encrypted_data (SALT_SIZE + NONCE_SIZE + TAG_SIZE + 2)
                     (SALT_SIZE + NONCE_SIZE + TAG_SIZE + 2 + metadata_length);
             ciphertext = drop (SALT_SIZE + NONCE_SIZE + TAG_SIZE + 2 + metadata_length)
                     encrypted_data
         in case derive_key L password salt KEY_SIZE of
              Inl e \<Rightarrow> Inl e
            | Inr key \<Rightarrow>
                (case gcm_decrypt L key nonce tag metadata ciphertext of
                   None \<Rightarrow> Inl InvalidTag
                 | Some plain \<Rightarrow> Inr plain)))"

text \<open>
  The contract of the AES-GCM primitive that the codec relies on: the tag has 16 bytes,
  and decrypting what was encrypted, with the same key, nonce and associated data,
  verifies and gives the data back.
\<close>

definition gcm_correct :: "crypto_lib \<Rightarrow> bool" where
  "gcm_correct L \<longleftrightarrow>
     (\<forall>key nonce aad data.
        length (snd (gcm_encrypt L key nonce aad data)) = 16 \<and>
        gcm_decrypt L key nonce (snd (gcm_encrypt L key nonce aad data)) aad
          (fst (gcm_encrypt L key nonce aad data)) = Some data)"


section \<open>The principal record and the relay (login.py, db_connect.py)\<close>

text \<open>
  The user profile is a JSON object. A namespace keypair is the object with the keys
  \<open>private_key\<close>, \<open>public_key\<close> (both Base64 text) and \<open>created_at\<close>. In a
  \<open>db_profile\<close>, \<open>current_keypair = None\<close> is the JSON \<open>null\<close> that
  \<open>DatabaseManager\<close> writes for a new namespace, and \<open>old_keys = None\<close> is a profile
  without the key \<open>'old_keys'\<close>. The table \<open>db_profiles\<close> is keyed by the value of the
  environment variable \<open>SUPABASE_URL\<close>, which every operation takes as the argument
  \<open>url\<close>.
\<close>

record keypair =
  private_key :: string
  public_key :: string
  created_at :: string

record db_profile =
  current_keypair :: "keypair option"
  old_keys :: "keypair list option"

record user_data =
  username :: string
  identity_public_key :: string
  identity_private_key :: string
  db_profiles :: "string \<rightharpoonup> db_profile"

text \<open>
  The two tables of the relay. \<open>connected = False\<close> stands for every failure of the
  client (no connection, a failed request): each method of \<open>DatabaseManager\<close> catches the
  exception and returns its failure value.
\<close>

record message =
  sender_username :: string
  recipient_username :: string
  ciphertext :: string
  timestamp :: string

record database =
  users_public_keys :: "string \<rightharpoonup> string"
  message_log :: "message list"
  connected :: bool

definition get_user_public_key :: "database \<Rightarrow> string \<Rightarrow> string option" where
  "get_user_public_key db name = (if connected db then users_public_keys db name else None)"

text \<open>\<open>DatabaseManager.send_message\<close>; \<open>now\<close> is the value of \<open>get_timestamp()\<close>.\<close>

definition db_send_message ::
  "database \<Rightarrow> string \<Rightarrow> string \<Rightarrow> string \<Rightarrow> string \<Rightarrow> bool \<times> database" where
  "db_send_message db now sender recipient ct =
     (if connected db
      then (True, db\<lparr>message_log := message_log db @
              [\<lparr>sender_username = sender, recipient_username = recipient,
                ciphertext = ct, timestamp = now\<rparr>]\<rparr>)
      else (False, db))"

definition get_messages :: "database \<Rightarrow> string \<Rightarrow> message list" where
  "get_messages db name =
     (if connected db
      then filter (\<lambda>msg. sender_username msg \<noteq> ''system'')
             (filter (\<lambda>msg. recipient_username msg = name) (message_log db))
      else [])"

definition update_public_key :: "database \<Rightarrow> string \<Rightarrow> string \<Rightarrow> bool \<times> database" where
  "update_public_key db name pk =
     (if connected db
      then (True, if name \<in> dom (users_public_keys db)
                  then db\<lparr>users_public_keys := (users_public_keys db)(name \<mapsto> pk)\<rparr>
                  else db)
      else (False, db))"

text \<open>
  The record that \<open>register_user\<close> creates (login.py, lines 34 to 46); \<open>sk\<close> is the
  identity key that \<open>PrivateKey.generate()\<close> returns. Saving the profile is left out.
\<close>

definition register_user :: "crypto_lib \<Rightarrow> string \<Rightarrow> bytes \<Rightarrow> user_data" where
  "register_user L name sk =
     \<lparr>username = name,
      identity_public_key = b64encode L (public_of L sk),
      identity_private_key = b64encode L sk,
      db_profiles = Map.empty\<rparr>"

text \<open>
  Lines 71 to 75 of \<open>DatabaseManager._connect_to_supabase\<close>: a namespace that the record
  does not know yet gets an entry without keys.
\<close>

definition connect_profile :: "string \<Rightarrow> user_data \<Rightarrow> user_data" where
  "connect_profile url ud =
     (if url \<notin> dom (db_profiles ud)
      then ud\<lparr>db_profiles := (db_profiles ud)
             (url \<mapsto> \<lparr>current_keypair = None, old_keys = Some []\<rparr>)\<rparr>
      else ud)"

section \<open>Message cipher and fallback (chat.py)\<close>

text \<open>The constructors of PyNaCl keys raise unless they are given 32 bytes.\<close>

definition PrivateKey :: "bytes \<Rightarrow> bytes option" where
  "PrivateKey raw = (if length raw = 32 then Some raw else None)"

definition PublicKey :: "bytes \<Rightarrow> bytes option" where
  "PublicKey raw = (if length raw = 32 then Some raw else None)"

text \<open>\<open>PrivateKey(Base64Encoder.decode(s))\<close> and \<open>PublicKey(Base64Encoder.decode(s))\<close>.\<close>

definition load_private_key :: "crypto_lib \<Rightarrow> string \<Rightarrow> bytes option" where
  "load_private_key L s = Option.bind (b64decode L s) PrivateKey"

definition load_public_key :: "crypto_lib \<Rightarrow> string \<Rightarrow> bytes option" where
  "load_public_key L s = Option.bind (b64decode L s) PublicKey"

text \<open>
  A keypair as the program stores it after \<open>PrivateKey.generate()\<close>, whose random bytes
  are the argument \<open>sk\<close>.
\<close>

definition stored_keypair :: "crypto_lib \<Rightarrow> bytes \<Rightarrow> string \<Rightarrow> keypair" where
  "stored_keypair L sk now =
     \<lparr>private_key = b64encode L sk, public_key = b64encode L (public_of L sk),
      created_at = now\<rparr>"

record chat_manager =
  cm_user_data :: user_data
  cm_username :: string
  cm_identity_private_key :: bytes
  cm_identity_public_key :: bytes

definition initialize_chat_keypair ::
  "crypto_lib \<Rightarrow> string \<Rightarrow> bytes \<Rightarrow> string \<Rightarrow> user_data \<Rightarrow> user_data" where
  "initialize_chat_keypair L url sk now ud =
     (case db_profiles ud url of
        Some db_profile \<Rightarrow>
          (if current_keypair db_profile = None
           then ud\<lparr>db_profiles := (db_profiles ud)
                  (url \<mapsto> db_profile\<lparr>current_keypair := Some (stored_keypair L sk now)\<rparr>)\<rparr>
           else ud)
      | None \<Rightarrow>
          ud\<lparr>db_profiles := (db_profiles ud)
               (url \<mapsto> \<lparr>current_keypair = Some (stored_keypair L sk now),
                         old_keys = Some []\<rparr>)\<rparr>)"

text \<open>\<open>ChatManager.__init__\<close>; None is the exception of a key that does not load.\<close>

definition ChatManager_init ::
  "crypto_lib \<Rightarrow> string \<Rightarrow> bytes \<Rightarrow> string \<Rightarrow> user_data \<Rightarrow> chat_manager option" where
  "ChatManager_init L url sk now ud =
     (case load_private_key L (identity_private_key ud) of
        None \<Rightarrow> None
      | Some priv \<Rightarrow>
          (case load_public_key L (identity_public_key ud) of
             None \<Rightarrow> None
           | Some pub \<Rightarrow>
               Some \<lparr>cm_user_data = initialize_chat_keypair L url sk now ud,
                     cm_username = username ud,
                     cm_identity_private_key = priv,
                     cm_identity_public_key = pub\<rparr>))"

text \<open>
  Lines 88 to 97 of \<open>send_message\<close>: the sealed text, or None for the exception that the
  method catches. \<open>nonce\<close> is the draw of \<open>nacl.utils.random(Box.NONCE_SIZE)\<close>.
\<close>

definition seal :: "crypto_lib \<Rightarrow> bytes \<Rightarrow> string \<Rightarrow> string \<Rightarrow> bytes \<Rightarrow> string option" where
  "seal L sk recipient_public_key_str msg nonce =
     (case load_public_key L recipient_public_key_str of
        None \<Rightarrow> None
      | Some recipient_public_key \<Rightarrow>
          Some (b64encode L (box_encrypt L sk recipient_public_key (str_encode L msg) nonce)))"

definition send_message ::
  "crypto_lib \<Rightarrow> chat_manager \<Rightarrow> string \<Rightarrow> string \<Rightarrow> string \<Rightarrow> bytes \<Rightarrow> string \<Rightarrow> database
     \<Rightarrow> bool \<times> database" where
  "send_message L cm recipient recipient_public_key_str msg nonce now db =
     (case seal L (cm_identity_private_key cm) recipient_public_key_str msg nonce of
        None \<Rightarrow> (False, db)
      | Some ct \<Rightarrow> db_send_message db now (cm_username cm) recipient ct)"

text \<open>
  Lines 136 to 137 and 195 to 196, the same in both decryption paths: decode the Base64
  text, open the box, decode UTF-8. None is any exception on the way.
\<close>

definition open_box :: "crypto_lib \<Rightarrow> bytes \<Rightarrow> bytes \<Rightarrow> string \<Rightarrow> string option" where
  "open_box L sk sender_public_key ct =
     (case b64decode L ct of
        None \<Rightarrow> None
      | Some encrypted \<Rightarrow>
          Option.bind (box_decrypt L sk sender_public_key encrypted) (bytes_decode L))"

text \<open>Lines 129 to 137 of \<open>receive_messages\<close>: the attempt with the current key.\<close>

definition open_sealed :: "crypto_lib \<Rightarrow> bytes \<Rightarrow> string \<Rightarrow> string \<Rightarrow> string option" where
  "open_sealed L sk sender_public_key_str ct =
     (case load_public_key L sender_public_key_str of
        None \<Rightarrow> None
      | Some sender_public_key \<Rightarrow> open_box L sk sender_public_key ct)"

text \<open>
  The body of the loop of \<open>_try_decrypt_with_old_keys\<close> (lines 188 to 196): the attempt
  with one retired keypair.
\<close>

definition open_with_old_key :: "crypto_lib \<Rightarrow> bytes \<Rightarrow> string \<Rightarrow> keypair \<Rightarrow> string option" where
  "open_with_old_key L sender_public_key ct key_data =
     (case load_private_key L (private_key key_data) of
        None \<Rightarrow> None
      | Some sk \<Rightarrow> open_box L sk sender_public_key ct)"

text \<open>
  The loop over \<open>old_keys\<close>: the first key that decrypts returns, an exception goes on
  to the next key.
\<close>

fun try_old_keys :: "crypto_lib \<Rightarrow> bytes \<Rightarrow> string \<Rightarrow> keypair list \<Rightarrow> string option" where
  "try_old_keys L sender_public_key ct [] = None"
| "try_old_keys L sender_public_key ct (key_data # rest) =
     (case open_with_old_key L sender_public_key ct key_data of
        Some decrypted \<Rightarrow> Some decrypted
      | None \<Rightarrow> try_old_keys L sender_public_key ct rest)"

definition try_decrypt_with_old_keys ::
  "crypto_lib \<Rightarrow> string \<Rightarrow> user_data \<Rightarrow> string \<Rightarrow> string \<Rightarrow> string option" where
  "try_decrypt_with_old_keys L url ud ct sender_public_key_str =
     (case db_profiles ud url of
        None \<Rightarrow> None
      | Some db_profile \<Rightarrow>
          (case load_public_key L sender_public_key_str of
             None \<Rightarrow> None
           | Some sender_public_key \<Rightarrow>
               try_old_keys L sender_public_key ct
                 (case old_keys db_profile of None \<Rightarrow> [] | Some ks \<Rightarrow> ks)))"

text \<open>
  An entry of the returned list: sender, timestamp and decrypted content.
  \<open>receive_one\<close> is the body of the loop of \<open>receive_messages\<close> for one message: the
  entries it appends.
\<close>

type_synonym decrypted_message = "string \<times> string \<times> string"

definition receive_one ::
  "crypto_lib \<Rightarrow> string \<Rightarrow> chat_manager \<Rightarrow> database \<Rightarrow> message \<Rightarrow> decrypted_message list" where
  "receive_one L url cm db msg =
     (case get_user_public_key db (sender_username msg) of
        None \<Rightarrow> []
      | Some sender_public_key_str \<Rightarrow>
          (if sender_public_key_str = [] then []
           else
             (case open_sealed L (cm_identity_private_key cm) sender_public_key_str
                     (ciphertext msg) of
                Some decrypted \<Rightarrow> [(sender_username msg, timestamp msg, decrypted)]
              | None \<Rightarrow>
                  (case try_decrypt_with_old_keys L url (cm_user_data cm) (ciphertext msg)
                          sender_public_key_str of
                     None \<Rightarrow> []
                   | Some decrypted \<Rightarrow>
                       (if decrypted \<noteq> []
                        then [(sender_username msg, timestamp msg, decrypted)]
                        else [])))))"

fun receive_loop ::
  "crypto_lib \<Rightarrow> string \<Rightarrow> chat_manager \<Rightarrow> database \<Rightarrow> message list
     \<Rightarrow> decrypted_message list \<Rightarrow> decrypted_message list" where
  "receive_loop L url cm db [] decrypted_messages = decrypted_messages"
| "receive_loop L url cm db (msg # rest) decrypted_messages =
     receive_loop L url cm db rest (decrypted_messages @ receive_one L url cm db msg)"

definition receive_messages ::
  "crypto_lib \<Rightarrow> string \<Rightarrow> chat_manager \<Rightarrow> database \<Rightarrow> decrypted_message list" where
  "receive_messages L url cm db = receive_loop L url cm db (get_messages db (cm_username cm)) []"


section \<open>Key rotation (key_rotate.py)\<close>

text \<open>
  What \<open>rotate_key\<close> takes from outside: the random bytes of the two calls of
  \<open>PrivateKey.generate()\<close>, the value of \<open>get_timestamp()\<close>, the password typed at
  the prompt, the draws and the clock of \<open>encrypt_data\<close>, and \<open>json.dumps\<close>.
\<close>

record rotation_io =
  new_private_key :: bytes
  new_identity_private_key :: bytes
  rotation_time :: string
  entered_password :: string
  file_salt :: bytes
  file_nonce :: bytes
  file_time :: string
  json_dumps :: "user_data \<Rightarrow> string"

text \<open>
  \<open>rotate_key\<close> returns its boolean, the record as the method leaves it (it mutates
  \<open>user_data\<close> in place, also when it returns False later), the relay, and the bytes
  written to the profile file, if any. \<open>self.username\<close> is \<open>user_data['username']\<close>.
\<close>

definition rotate_key ::
  "crypto_lib \<Rightarrow> string \<Rightarrow> rotation_io \<Rightarrow> user_data \<Rightarrow> database
     \<Rightarrow> bool \<times> user_data \<times> database \<times> bytes option" where
  "rotate_key L url io ud db =
     (case db_profiles ud url of
        None \<Rightarrow> (False, ud, db, None)
      | Some db_profile \<Rightarrow>
          (let retired =
                 (case current_keypair db_profile of
                    None \<Rightarrow> db_profile
                  | Some cur \<Rightarrow>
                      db_profile\<lparr>old_keys :=
                        Some ((case old_keys db_profile of None \<Rightarrow> [] | Some ks \<Rightarrow> ks) @ [cur])\<rparr>);
               renewed = retired\<lparr>current_keypair :=
                 Some (stored_keypair L (new_private_key io) (rotation_time io))\<rparr>;
               ud' = ud\<lparr>db_profiles := (db_profiles ud)(url \<mapsto> renewed),
                        identity_private_key := b64encode L (new_identity_private_key io),
                        identity_public_key :=
                          b64encode L (public_of L (new_identity_private_key io))\<rparr>;
               (success, db') = update_public_key db (username ud) (identity_public_key ud')
           in if \<not> success then (False, ud', db', None)
              else
                (case encrypt_data L (file_salt io) (file_nonce io) (file_time io)
                        (str_encode L (json_dumps io ud')) (entered_password io) of
                   Inl e \<Rightarrow> (False, ud', db', None)
                 | Inr encrypted_data \<Rightarrow> (True, ud', db', Some encrypted_data))))"

text \<open>
  Lines 51 to 56 of \<open>rotate_key\<close> on the profile alone: the current keypair, if there
  is one, is appended to the retired list.
\<close>

definition retire_current :: "db_profile \<Rightarrow> db_profile" where
  "retire_current db_profile =
     (case current_keypair db_profile of
        None \<Rightarrow> db_profile
      | Some cur \<Rightarrow>
          db_profile\<lparr>old_keys :=
            Some ((case old_keys db_profile of None \<Rightarrow> [] | Some ks \<Rightarrow> ks) @ [cur])\<rparr>)"

text \<open>
  The retired list of a profile, as \<open>db_profile.get('old_keys', [])\<close> reads it, and the
  invariant of the key store: no keypair occurs twice among the retired keypairs and the
  current one.
\<close>

definition retired_keys :: "db_profile \<Rightarrow> keypair list" where
  "retired_keys db_profile = (case old_keys db_profile of None \<Rightarrow> [] | Some ks \<Rightarrow> ks)"

definition profile_distinct :: "db_profile \<Rightarrow> bool" where
  "profile_distinct db_profile \<longleftrightarrow>
     distinct (retired_keys db_profile @
               (case current_keypair db_profile of None \<Rightarrow> [] | Some cur \<Rightarrow> [cur]))"

definition record_distinct :: "string \<Rightarrow> user_data \<Rightarrow> bool" where
  "record_distinct url ud \<longleftrightarrow>
     (case db_profiles ud url of None \<Rightarrow> True | Some db_profile \<Rightarrow> profile_distinct db_profile)"

text \<open>\<open>s.split(' ')[0]\<close>: the text before the first space.\<close>

definition date_part :: "string \<Rightarrow> string" where
  "date_part s = takeWhile (\<lambda>c. c \<noteq> CHR '' '') s"

text \<open>\<open>check_key_rotation_needed\<close>; \<open>now\<close> is the value of \<open>get_timestamp()\<close>.\<close>

definition check_key_rotation_needed :: "string \<Rightarrow> string \<Rightarrow> user_data \<Rightarrow> bool" where
  "check_key_rotation_needed url now ud =
     (case db_profiles ud url of
        None \<Rightarrow> False
      | Some db_profile \<Rightarrow>
          (case current_keypair db_profile of
             None \<Rightarrow> True
           | Some kp \<Rightarrow>
               (let day_ago = date_part now;
                    created_date = date_part (created_at kp)
                in created_date \<noteq> day_ago)))"

section \<open>Contracts of the library primitives\<close>

text \<open>
  The codecs invert each other on what they produced, and only the empty byte string has
  an empty Base64 text; a box opens, with the recipient's
  private key and the sender's public key, what was sealed with the sender's private key
  and the recipient's public key; a public key has 32 bytes.
\<close>

definition codec_correct :: "crypto_lib \<Rightarrow> bool" where
  "codec_correct L \<longleftrightarrow>
     (\<forall>b. b64decode L (b64encode L b) = Some b) \<and>
     (\<forall>b. b64encode L b = [] \<longleftrightarrow> b = []) \<and>
     (\<forall>s. bytes_decode L (str_encode L s) = Some s)"

definition box_correct :: "crypto_lib \<Rightarrow> bool" where
  "box_correct L \<longleftrightarrow>
     (\<forall>sk. length sk = 32 \<longrightarrow> length (public_of L sk) = 32) \<and>
     (\<forall>skA skB plain nonce.
        length skA = 32 \<and> length skB = 32 \<and> length nonce = 24 \<longrightarrow>
        box_decrypt L skB (public_of L skA)
          (box_encrypt L skA (public_of L skB) plain nonce) = Some plain)"

text \<open>
  A small executable instance of the primitives, to run the program on concrete inputs:
  a checksum as key derivation and as tag, a byte-wise shift by the first key byte as
  cipher, the multiplication by 3 as public key (so that both sides compute the same
  shared bytes), and the byte-wise correspondence of characters and bytes as codecs.
\<close>

definition sample_lib :: crypto_lib where
  "sample_lib =
     \<lparr>hash_secret_raw = (\<lambda>secret salt n. replicate n (sum_list secret + sum_list salt)),
      gcm_encrypt = (\<lambda>key nonce aad plain.
         (map (\<lambda>b. b + sum_list (take 1 key)) plain,
          replicate 16 (sum_list (take 1 key @ nonce @ aad @
                                  map (\<lambda>b. b + sum_list (take 1 key)) plain)))),
      gcm_decrypt = (\<lambda>key nonce tag aad ct.
         if tag = replicate 16 (sum_list (take 1 key @ nonce @ aad @ ct))
         then Some (map (\<lambda>b. b - sum_list (take 1 key)) ct) else None),
      str_encode = map (\<lambda>c. of_nat (of_char c)),
      bytes_decode = (\<lambda>b. Some (map (\<lambda>w. char_of (unat w)) b)),
      b64encode = map (\<lambda>w. char_of (unat w)),
      b64decode = (\<lambda>s. Some (map (\<lambda>c. of_nat (of_char c)) s)),
      public_of = map (\<lambda>b. 3 * b),
      box_encrypt = (\<lambda>sk pk plain nonce. nonce @ map2 (*) sk pk @ plain),
      box_decrypt = (\<lambda>sk pk encrypted.
         if 56 \<le> length encrypted \<and> take 32 (drop 24 encrypted) = map2 (*) sk pk
         then Some (drop 56 encrypted) else None)\<rparr>"


section \<open>Sample data\<close>

text \<open>
  Concrete inputs on the sample primitives. A sample key is 32 equal bytes; with the
  sample primitives its public key is the sample key of the tripled byte.
  \<open>sample_sealed\<close> is what \<open>seal\<close> produces from the sender's private key and the
  recipient's private key's public key, with a nonce of 24 zero bytes.
\<close>

definition sample_key :: "byte \<Rightarrow> bytes" where
  "sample_key x = replicate 32 x"

definition sample_sealed :: "byte \<Rightarrow> byte \<Rightarrow> string \<Rightarrow> string" where
  "sample_sealed sender recipient text =
     b64encode sample_lib
       (box_encrypt sample_lib (sample_key sender) (public_of sample_lib (sample_key recipient))
          (str_encode sample_lib text) (replicate 24 0))"

text \<open>
  The container written for the data \<open>[104, 105]\<close> under the password \<open>pw\<close> with a
  salt of 16 sevens and a nonce of 12 nines, the same container with its last
  ciphertext byte altered, and the same container with its two ciphertext bytes swapped.
\<close>

definition sample_container :: bytes where
  "sample_container =
     replicate 16 7 @ replicate 12 9 @ replicate 16 123 @ [0, 37] @
     file_metadata sample_lib ''2025-01-01T00:00:00'' @ [191, 192]"



text \<open>
  Alice as \<open>register_user\<close> creates her (no namespace yet), Alice with a current
  keypair in the namespace \<open>ns1\<close>, and Alice after two rotations, with two retired
  keypairs.
\<close>

definition new_record :: user_data where
  "new_record =
     \<lparr>username = ''alice'',
      identity_public_key = b64encode sample_lib (public_of sample_lib (sample_key 1)),
      identity_private_key = b64encode sample_lib (sample_key 1),
      db_profiles = Map.empty\<rparr>"

definition alice_record :: user_data where
  "alice_record =
     \<lparr>username = ''alice'',
      identity_public_key = b64encode sample_lib (public_of sample_lib (sample_key 1)),
      identity_private_key = b64encode sample_lib (sample_key 1),
      db_profiles = [''ns1'' \<mapsto>
        \<lparr>current_keypair = Some (stored_keypair sample_lib (sample_key 7) ''2025-01-01 09:00:00''),
         old_keys = Some []\<rparr>]\<rparr>"

definition veteran_record :: user_data where
  "veteran_record =
     alice_record\<lparr>db_profiles := [''ns1'' \<mapsto>
       \<lparr>current_keypair = Some (stored_keypair sample_lib (sample_key 13) ''2025-01-03 09:00:00''),
        old_keys = Some [stored_keypair sample_lib (sample_key 7) ''2025-01-01 09:00:00'',
                         stored_keypair sample_lib (sample_key 11) ''2025-01-02 09:00:00'']\<rparr>]\<rparr>"

definition veteran_manager :: chat_manager where
  "veteran_manager =
     \<lparr>cm_user_data = veteran_record, cm_username = ''alice'',
      cm_identity_private_key = sample_key 1,
      cm_identity_public_key = public_of sample_lib (sample_key 1)\<rparr>"

text \<open>
  The relay: Bob's message \<open>hello\<close>, sealed with his identity key against Alice's
  identity public key; a message that is not a box at all; and a message sealed against
  the public key of Alice's second retired keypair.
\<close>

definition bob_message :: message where
  "bob_message =
     \<lparr>sender_username = ''bob'', recipient_username = ''alice'',
      ciphertext = sample_sealed 5 1 ''hello'', timestamp = ''2025-01-01 10:00:00''\<rparr>"

definition broken_message :: message where
  "broken_message =
     \<lparr>sender_username = ''bob'', recipient_username = ''alice'',
      ciphertext = b64encode sample_lib [1, 2, 3], timestamp = ''2025-01-03 10:00:00''\<rparr>"

definition old_key_message :: message where
  "old_key_message =
     \<lparr>sender_username = ''bob'', recipient_username = ''alice'',
      ciphertext = sample_sealed 5 11 ''hi'', timestamp = ''2025-01-03 11:00:00''\<rparr>"

definition sample_relay :: database where
  "sample_relay =
     \<lparr>users_public_keys =
        [''alice'' \<mapsto> b64encode sample_lib (public_of sample_lib (sample_key 1)),
         ''bob'' \<mapsto> b64encode sample_lib (public_of sample_lib (sample_key 5))],
      message_log = [bob_message],
      connected = True\<rparr>"

definition busy_relay :: database where
  "busy_relay = sample_relay\<lparr>message_log := [broken_message, old_key_message, bob_message]\<rparr>"

text \<open>
  The inputs of one rotation, and of a later one; \<open>username\<close> stands in for
  \<open>json.dumps\<close>.
\<close>

definition sample_io :: rotation_io where
  "sample_io =
     \<lparr>new_private_key = sample_key 11,
      new_identity_private_key = sample_key 2,
      rotation_time = ''2025-01-02 09:00:00'',
      entered_password = ''pw'',
      file_salt = replicate 16 7,
      file_nonce = replicate 12 9,
      file_time = ''2025-01-02T09:00:00'',
      json_dumps = username\<rparr>"

definition later_io :: rotation_io where
  "later_io = sample_io\<lparr>new_private_key := sample_key 17,
                         rotation_time := ''2025-01-04 09:00:00''\<rparr>"

section \<open>Lemmas on bytes and on the sample primitives\<close>

lemma from_bytes_to_bytes2: "n < 65536 \<Longrightarrow> to_bytes2 n = Some b \<Longrightarrow> from_bytes_big b = n \<and> length b = 2"
  by (auto simp add: from_bytes_big_def to_bytes2_def unat_of_nat)

lemma byte_char_byte: "of_nat (of_char (char_of (unat (w :: byte)) :: char)) = w"
proof -
  have "unat w < 256" using unsigned_less [of w] by simp
  then show ?thesis by simp
qed

lemma char_byte_char: "char_of (unat (of_nat (of_char c) :: byte)) = c"
  by (simp add: unat_of_nat)

lemma sample_gcm_correct: "gcm_correct sample_lib"
  by (simp add: gcm_correct_def sample_lib_def comp_def)

lemma sample_codec_correct: "codec_correct sample_lib"
  using byte_char_byte char_byte_char
  by (simp add: codec_correct_def sample_lib_def comp_def map_idI)

lemma map2_mult_3: "map2 (*) skB (map (\<lambda>b. 3 * b) skA) = map2 (*) skA (map (\<lambda>b. 3 * b) (skB :: byte list))"
proof (induction skB arbitrary: skA)
  case Nil then show ?case by simp
next
  case (Cons b bs) then show ?case by (cases skA) (simp_all add: mult.left_commute mult.commute)
qed

lemma sample_box_correct: "box_correct sample_lib"
  by (auto simp add: box_correct_def sample_lib_def map2_mult_3)

lemma sample_public_of: "public_of sample_lib (sample_key x) = sample_key (3 * x)"
  by (simp add: sample_lib_def sample_key_def)

lemma sample_box_decrypt:
  "box_decrypt sample_lib (sample_key a) (sample_key b)
     (box_encrypt sample_lib (sample_key c) (sample_key d) plain (replicate 24 0)) =
   (if a * b = c * d then Some plain else None)"
  by (simp add: sample_lib_def sample_key_def)

lemma sample_box_short: "length e < 56 \<Longrightarrow> box_decrypt sample_lib sk pk e = None"
  by (simp add: sample_lib_def)

lemma sample_b64: "b64decode sample_lib (b64encode sample_lib b) = Some b"
  using sample_codec_correct by (simp add: codec_correct_def)

lemma sample_utf8: "bytes_decode sample_lib (str_encode sample_lib s) = Some s"
  using sample_codec_correct by (simp add: codec_correct_def)

lemma sample_load_public_key:
  "load_public_key sample_lib (b64encode sample_lib (sample_key x)) = Some (sample_key x)"
  by (simp add: load_public_key_def sample_b64 PublicKey_def sample_key_def)

lemma sample_load_private_key:
  "load_private_key sample_lib (b64encode sample_lib (sample_key x)) = Some (sample_key x)"
  by (simp add: load_private_key_def sample_b64 PrivateKey_def sample_key_def)

lemma sample_open_box:
  "open_box sample_lib (sample_key a) (sample_key b) (sample_sealed c d text) =
     (if a * b = c * (3 * d) then Some text else None)"
  by (simp add: open_box_def sample_sealed_def sample_b64 sample_public_of sample_box_decrypt
      sample_utf8)

lemma sample_open_box_broken:
  "open_box sample_lib sk pk (b64encode sample_lib [1, 2, 3]) = None"
  by (simp add: open_box_def sample_b64 sample_box_short)

lemma sample_pks_nonempty: "b64encode sample_lib (sample_key x) \<noteq> []"
  by (simp add: sample_lib_def sample_key_def)



section \<open>The container codec\<close>

text \<open>
  What \<open>decrypt_data\<close> does with a container of the layout
  salt (16), nonce (12), tag (16), length (2, big-endian), associated data, ciphertext:
  it hands exactly these fields to the AES-GCM decryptor.
\<close>

lemma decrypt_data_fields:
  assumes "length salt = 16" "length nonce = 12" "length tag = 16" "to_bytes2 (length md) = Some ml"
  shows "decrypt_data L (salt @ nonce @ tag @ ml @ md @ ct) w =
           (case gcm_decrypt L (hash_secret_raw L (str_encode L w) salt 32) nonce tag md ct of
              None \<Rightarrow> Inl InvalidTag | Some plain \<Rightarrow> Inr plain)"
proof -
  from assms(4) have n: "length md < 65536"
    by (simp add: to_bytes2_def split: if_splits)
  from from_bytes_to_bytes2 [OF n assms(4)]
  have ml: "from_bytes_big ml = length md" "length ml = 2" by simp_all
  show ?thesis
    using assms(1-3) ml
    by (simp add: decrypt_data_def slice_def SALT_SIZE_def NONCE_SIZE_def TAG_SIZE_def
        KEY_SIZE_def derive_key_def Let_def)
qed

lemma decrypt_data_short: "length c < 46 \<Longrightarrow> decrypt_data L c w = Inl ValueError"
  by (simp add: decrypt_data_def SALT_SIZE_def NONCE_SIZE_def TAG_SIZE_def)

lemma decrypt_data_no_ValueError: "46 \<le> length c \<Longrightarrow> decrypt_data L c w \<noteq> Inl ValueError"
  by (simp add: decrypt_data_def SALT_SIZE_def NONCE_SIZE_def TAG_SIZE_def Let_def
      KEY_SIZE_def derive_key_def split: option.splits)

text \<open>
  Claim C1 (container round trip). For every plaintext \<open>p\<close> and every password \<open>w\<close>,
  \<open>encrypt_data\<close> returns a container, and \<open>decrypt_data\<close> with the same password
  returns exactly \<open>p\<close> from it. The hypotheses are the contract of AES-GCM, the sizes of
  the two draws of \<open>os.urandom\<close>, and that the associated data built from the clock fits
  the two length bytes.
\<close>

theorem container_round_trip:
  assumes "gcm_correct L" "length salt = 16" "length nonce = 12"
    "length (file_metadata L now_iso) < 65536"
  shows "\<exists>c. encrypt_data L salt nonce now_iso p w = Inr c \<and> decrypt_data L c w = Inr p"
proof -
  define key where "key = hash_secret_raw L (str_encode L w) salt 32"
  define md where "md = file_metadata L now_iso"
  obtain ct tag where enc: "gcm_encrypt L key nonce md p = (ct, tag)"
    by (cases "gcm_encrypt L key nonce md p")
  obtain ml where ml: "to_bytes2 (length md) = Some ml"
    using assms(4) by (simp add: to_bytes2_def md_def)
  from assms(1) enc have tag: "length tag = 16" and dec: "gcm_decrypt L key nonce tag md ct = Some p"
    unfolding gcm_correct_def by (metis fst_conv snd_conv)+
  have e: "encrypt_data L salt nonce now_iso p w = Inr (salt @ nonce @ tag @ ml @ md @ ct)"
    using enc ml
    by (simp add: encrypt_data_def derive_key_def KEY_SIZE_def Let_def key_def md_def)
  have d: "decrypt_data L (salt @ nonce @ tag @ ml @ md @ ct) w = Inr p"
    using decrypt_data_fields [OF assms(2,3) tag ml, of L ct w] dec
    by (simp add: key_def)
  from e d show ?thesis by simp
qed

theorem container_round_trip_witness:
  "\<exists>c. encrypt_data sample_lib (replicate 16 7) (replicate 12 9) ''2025-01-01T00:00:00''
          [104, 105] ''pw'' = Inr c \<and>
       decrypt_data sample_lib c ''pw'' = Inr [104, 105]"
  by (rule container_round_trip [OF sample_gcm_correct])
     (simp_all add: file_metadata_def sample_lib_def APP_VERSION_def)

text \<open>
  Claim C3 (format errors). An input shorter than 46 bytes raises ValueError, but a
  declared length of the associated data that overruns the buffer does not: on the 46
  bytes that end in the declared length 1, with nothing after it, the slices are clamped
  to empty associated data and empty ciphertext, the key is derived and the AES-GCM
  decryptor decides the result.
\<close>

theorem decrypt_data_assoc_len_overrun:
  "decrypt_data L (replicate 44 0 @ [0, 1]) w =
     (case gcm_decrypt L (hash_secret_raw L (str_encode L w) (replicate 16 0) 32)
             (replicate 12 0) (replicate 16 0) [] [] of
        None \<Rightarrow> Inl InvalidTag
      | Some plain \<Rightarrow> Inr plain)"
  by (simp add: decrypt_data_def slice_def SALT_SIZE_def NONCE_SIZE_def TAG_SIZE_def
      KEY_SIZE_def derive_key_def Let_def from_bytes_big_def)

text \<open>
  More than that, such a container can be accepted: take the container of the empty
  plaintext and declare one byte of associated data more than there is. The clamped
  slices are the original fields, so the tag verifies.
\<close>

lemma decrypt_data_accepts_overrun:
  assumes "gcm_correct L" "length salt = 16" "length nonce = 12" "length md < 65535"
    "gcm_encrypt L (hash_secret_raw L (str_encode L w) salt 32) nonce md [] = ([], tag)"
    "to_bytes2 (length md + 1) = Some declared"
  shows "decrypt_data L (salt @ nonce @ tag @ declared @ md) w = Inr []"
proof -
  let ?key = "hash_secret_raw L (str_encode L w) salt 32"
  from assms(1) have "length (snd (gcm_encrypt L ?key nonce md [])) = 16"
    and "gcm_decrypt L ?key nonce (snd (gcm_encrypt L ?key nonce md [])) md
           (fst (gcm_encrypt L ?key nonce md [])) = Some []"
    by (simp_all add: gcm_correct_def)
  with assms(5) have tag: "length tag = 16" and dec: "gcm_decrypt L ?key nonce tag md [] = Some []"
    by simp_all
  have n: "length md + 1 < 65536" using assms(4) by simp
  from from_bytes_to_bytes2 [OF n assms(6)]
  have d: "from_bytes_big declared = length md + 1" "length declared = 2" by simp_all
  show ?thesis
    using assms(2,3) tag d dec
    by (simp add: decrypt_data_def slice_def SALT_SIZE_def NONCE_SIZE_def TAG_SIZE_def
        KEY_SIZE_def derive_key_def Let_def)
qed

text \<open>
  Claim C4 (layout). The output of \<open>encrypt_data\<close> is the salt, the nonce, the 16-byte
  tag, the length of the associated data as two big-endian bytes, the associated data
  and the ciphertext, in this order; and \<open>decrypt_data\<close> reads the fields of any
  container of this layout at these offsets: its result is the verdict of the AES-GCM
  decryptor on exactly these fields.
\<close>

theorem container_layout:
  assumes "gcm_correct L" "length salt = 16" "length nonce = 12"
  shows "(length (file_metadata L now_iso) < 65536 \<longrightarrow>
            (let key = hash_secret_raw L (str_encode L w) salt 32;
                 md = file_metadata L now_iso;
                 (ct, tag) = gcm_encrypt L key nonce md p
             in length tag = 16 \<and>
                encrypt_data L salt nonce now_iso p w =
                  Inr (salt @ nonce @ tag @
                       [of_nat (length md div 256), of_nat (length md mod 256)] @ md @ ct))) \<and>
         (length tag' = 16 \<and> length md' < 65536 \<longrightarrow>
            decrypt_data L
              (salt @ nonce @ tag' @
               [of_nat (length md' div 256), of_nat (length md' mod 256)] @ md' @ ct') w' =
            (case gcm_decrypt L (hash_secret_raw L (str_encode L w') salt 32) nonce tag' md' ct' of
               None \<Rightarrow> Inl InvalidTag
             | Some plain \<Rightarrow> Inr plain))"
proof (intro conjI impI)
  assume n: "length (file_metadata L now_iso) < 65536"
  from assms(1) have "length (snd (gcm_encrypt L (hash_secret_raw L (str_encode L w) salt 32) nonce
        (file_metadata L now_iso) p)) = 16"
    by (simp add: gcm_correct_def)
  with n show "let key = hash_secret_raw L (str_encode L w) salt 32;
                 md = file_metadata L now_iso;
                 (ct, tag) = gcm_encrypt L key nonce md p
             in length tag = 16 \<and>
                encrypt_data L salt nonce now_iso p w =
                  Inr (salt @ nonce @ tag @
                       [of_nat (length md div 256), of_nat (length md mod 256)] @ md @ ct)"
    by (auto simp add: encrypt_data_def derive_key_def KEY_SIZE_def Let_def to_bytes2_def
        split: prod.splits)
next
  assume a: "length tag' = 16 \<and> length md' < 65536"
  then have "to_bytes2 (length md') =
      Some [of_nat (length md' div 256), of_nat (length md' mod 256)]"
    by (simp add: to_bytes2_def)
  from decrypt_data_fields [OF assms(2,3) _ this, of tag' L ct' w'] a
  show "decrypt_data L
              (salt @ nonce @ tag' @
               [of_nat (length md' div 256), of_nat (length md' mod 256)] @ md' @ ct') w' =
            (case gcm_decrypt L (hash_secret_raw L (str_encode L w') salt 32) nonce tag' md' ct' of
               None \<Rightarrow> Inl InvalidTag
             | Some plain \<Rightarrow> Inr plain)"
    by simp
qed

theorem container_layout_witness:
  "encrypt_data sample_lib (replicate 16 7) (replicate 12 9) ''2025-01-01T00:00:00''
     [104, 105] ''pw'' = Inr sample_container \<and>
   decrypt_data sample_lib sample_container ''pw'' = Inr [104, 105]"
proof -
  have md: "length (file_metadata sample_lib ''2025-01-01T00:00:00'') = 37"
    by (simp add: file_metadata_def sample_lib_def APP_VERSION_def)
  have key: "hash_secret_raw sample_lib (str_encode sample_lib ''pw'') (replicate 16 7) 32
               = replicate 32 87"
    by (simp add: sample_lib_def sum_list_replicate)
  have enc: "gcm_encrypt sample_lib (replicate 32 87) (replicate 12 9)
               (file_metadata sample_lib ''2025-01-01T00:00:00'') [104, 105]
               = ([191, 192], replicate 16 123)"
    by (simp add: file_metadata_def sample_lib_def APP_VERSION_def sum_list_replicate)
  have dec: "gcm_decrypt sample_lib (replicate 32 87) (replicate 12 9) (replicate 16 123)
               (file_metadata sample_lib ''2025-01-01T00:00:00'') [191, 192]
               = Some [104, 105]"
    by (simp add: file_metadata_def sample_lib_def APP_VERSION_def sum_list_replicate)
  from container_layout [OF sample_gcm_correct, of "replicate 16 7" "replicate 12 9"
      "''2025-01-01T00:00:00''" "''pw''" "[104, 105]" "replicate 16 123"
      "file_metadata sample_lib ''2025-01-01T00:00:00''" "[191, 192]" "''pw''"]
  show ?thesis
    by (simp add: md key enc dec sample_container_def)
qed






text \<open>
  This is not particular to the sample primitives. The tag has 16 bytes and the
  plaintexts are unbounded, so with any primitives that meet the contract two plaintexts
  get the same tag under the same key, nonce and associated data; the container of the
  one, with the ciphertext of the other in its place, verifies and opens to the other.
  Some alteration of the ciphertext alone is therefore always accepted.
\<close>

lemma tag_collision:
  assumes "gcm_correct L"
  shows "\<exists>p q. p \<noteq> q \<and>
           snd (gcm_encrypt L key nonce aad p) = snd (gcm_encrypt L key nonce aad q) \<and>
           fst (gcm_encrypt L key nonce aad p) \<noteq> fst (gcm_encrypt L key nonce aad q)"
proof -
  let ?tag = "\<lambda>p. snd (gcm_encrypt L key nonce aad p)"
  have "range ?tag \<subseteq> {xs. set xs \<subseteq> (UNIV :: byte set) \<and> length xs = 16}"
    using assms by (auto simp add: gcm_correct_def)
  moreover have "finite {xs. set xs \<subseteq> (UNIV :: byte set) \<and> length xs = 16}"
    by (rule finite_lists_length_eq) simp
  ultimately have "finite (range ?tag)"
    by (rule finite_subset)
  moreover have "infinite (UNIV :: bytes set)"
    by (rule infinite_UNIV_listI)
  ultimately have "\<not> inj ?tag"
    using finite_imageD by blast
  then obtain p q where pq: "p \<noteq> q" "?tag p = ?tag q"
    by (auto simp add: inj_on_def)
  have "fst (gcm_encrypt L key nonce aad p) \<noteq> fst (gcm_encrypt L key nonce aad q)"
  proof
    assume e: "fst (gcm_encrypt L key nonce aad p) = fst (gcm_encrypt L key nonce aad q)"
    from assms have
      "gcm_decrypt L key nonce (?tag p) aad (fst (gcm_encrypt L key nonce aad p)) = Some p"
      "gcm_decrypt L key nonce (?tag q) aad (fst (gcm_encrypt L key nonce aad q)) = Some q"
      by (simp_all add: gcm_correct_def)
    with e pq(2) have "p = q" by (metis option.inject)
    with pq(1) show False by simp
  qed
  with pq show ?thesis by blast
qed

lemma altered_ciphertext_accepted:
  assumes "gcm_correct L" "length salt = 16" "length nonce = 12"
    "length (file_metadata L now_iso) < 65536"
  shows "\<exists>p q tag ml ct ct'.
           p \<noteq> q \<and> ct \<noteq> ct' \<and>
           encrypt_data L salt nonce now_iso p w =
             Inr (salt @ nonce @ tag @ ml @ file_metadata L now_iso @ ct) \<and>
           decrypt_data L (salt @ nonce @ tag @ ml @ file_metadata L now_iso @ ct') w = Inr q"
proof -
  define key where "key = hash_secret_raw L (str_encode L w) salt 32"
  define md where "md = file_metadata L now_iso"
  from tag_collision [OF assms(1), of key nonce md]
  obtain p q where pq: "p \<noteq> q"
      "snd (gcm_encrypt L key nonce md p) = snd (gcm_encrypt L key nonce md q)"
      "fst (gcm_encrypt L key nonce md p) \<noteq> fst (gcm_encrypt L key nonce md q)"
    by blast
  define tag where "tag = snd (gcm_encrypt L key nonce md p)"
  define ct where "ct = fst (gcm_encrypt L key nonce md p)"
  define ct' where "ct' = fst (gcm_encrypt L key nonce md q)"
  obtain ml where ml: "to_bytes2 (length md) = Some ml"
    using assms(4) by (simp add: to_bytes2_def md_def)
  have tag: "length tag = 16"
    using assms(1) by (simp add: gcm_correct_def tag_def)
  have "gcm_decrypt L key nonce (snd (gcm_encrypt L key nonce md q)) md
          (fst (gcm_encrypt L key nonce md q)) = Some q"
    using assms(1) by (simp add: gcm_correct_def)
  then have dec: "gcm_decrypt L key nonce tag md ct' = Some q"
    using pq(2) by (simp add: tag_def ct'_def)
  have e: "encrypt_data L salt nonce now_iso p w = Inr (salt @ nonce @ tag @ ml @ md @ ct)"
    using ml
    by (simp add: encrypt_data_def derive_key_def KEY_SIZE_def Let_def key_def md_def
        tag_def ct_def split: prod.splits)
  have d: "decrypt_data L (salt @ nonce @ tag @ ml @ md @ ct') w = Inr q"
    using decrypt_data_fields [OF assms(2,3) tag ml, of L ct' w] dec
    by (simp add: key_def)
  from pq(1,3) e d show ?thesis
    unfolding md_def ct_def ct'_def by blast
qed

section \<open>The message cipher\<close>

lemma load_public_key_stored:
  assumes "codec_correct L" "box_correct L" "length sk = 32"
  shows "load_public_key L (b64encode L (public_of L sk)) = Some (public_of L sk)"
  using assms by (simp add: load_public_key_def codec_correct_def box_correct_def PublicKey_def)

lemma load_private_key_stored:
  assumes "codec_correct L" "length sk = 32"
  shows "load_private_key L (b64encode L sk) = Some sk"
  using assms by (simp add: load_private_key_def codec_correct_def PrivateKey_def)

lemma b64encode_public_nonempty:
  assumes "codec_correct L" "box_correct L" "length sk = 32"
  shows "b64encode L (public_of L sk) \<noteq> []"
proof -
  from assms(2,3) have "length (public_of L sk) = 32" by (simp add: box_correct_def)
  then have "public_of L sk \<noteq> []" by auto
  with assms(1) show ?thesis by (simp add: codec_correct_def)
qed

lemma open_sealed_stored:
  assumes "codec_correct L" "box_correct L" "length skB = 32"
  shows "open_sealed L sk (b64encode L (public_of L skB)) (b64encode L enc) =
     Option.bind (box_decrypt L sk (public_of L skB) enc) (bytes_decode L)"
  using assms
  by (simp add: open_sealed_def open_box_def load_public_key_stored codec_correct_def)

lemma open_with_old_key_stored:
  assumes "codec_correct L" "length skN = 32"
  shows "open_with_old_key L pk (b64encode L enc) (stored_keypair L skN t0) =
     Option.bind (box_decrypt L skN pk enc) (bytes_decode L)"
  using assms
  by (simp add: open_with_old_key_def open_box_def load_private_key_stored stored_keypair_def
      codec_correct_def)



subsection \<open>The fallback over retired keys\<close>

lemma receive_loop_concat:
  "receive_loop L url cm db msgs acc = acc @ concat (map (receive_one L url cm db) msgs)"
  by (induction msgs arbitrary: acc) simp_all

lemma receive_messages_concat:
  "receive_messages L url cm db =
     concat (map (receive_one L url cm db) (get_messages db (cm_username cm)))"
  by (simp add: receive_messages_def receive_loop_concat)

lemma try_old_keys_first_success:
  assumes "\<forall>k \<in> set ks1. open_with_old_key L pk ct k = None"
    "open_with_old_key L pk ct key_data = Some t"
  shows "try_old_keys L pk ct (ks1 @ key_data # ks2) = Some t"
  using assms by (induction ks1) simp_all

lemma try_old_keys_none:
  assumes "\<forall>k \<in> set ks. open_with_old_key L pk ct k = None"
  shows "try_old_keys L pk ct ks = None"
  using assms by (induction ks) simp_all

lemma try_old_keys_find:
  "try_old_keys L pk ct ks =
     Option.bind (List.find (\<lambda>k. open_with_old_key L pk ct k \<noteq> None) ks)
       (open_with_old_key L pk ct)"
  by (induction ks) (auto split: option.splits)

lemma receive_one_current:
  assumes "get_user_public_key db (sender_username msg) = Some pks" "pks \<noteq> []"
    "open_sealed L (cm_identity_private_key cm) pks (ciphertext msg) = Some t"
  shows "receive_one L url cm db msg = [(sender_username msg, timestamp msg, t)]"
  using assms by (simp add: receive_one_def)

lemma fallback_first_success:
  assumes "load_public_key L pks = Some pk"
    "db_profiles ud url = Some db_profile"
    "old_keys db_profile = Some (ks1 @ key_data # ks2)"
    "\<forall>k \<in> set ks1. open_with_old_key L pk ct k = None"
    "open_with_old_key L pk ct key_data = Some t"
  shows "try_decrypt_with_old_keys L url ud ct pks = Some t"
  using assms by (simp add: try_decrypt_with_old_keys_def try_old_keys_first_success)

lemma fallback_none:
  assumes "\<forall>pk db_profile ks k.
         load_public_key L pks = Some pk \<and> db_profiles ud url = Some db_profile \<and>
         old_keys db_profile = Some ks \<and> k \<in> set ks \<longrightarrow>
         open_with_old_key L pk ct k = None"
  shows "try_decrypt_with_old_keys L url ud ct pks = None"
proof (cases "db_profiles ud url")
  case None
  then show ?thesis by (simp add: try_decrypt_with_old_keys_def)
next
  case (Some db_profile)
  show ?thesis
  proof (cases "load_public_key L pks")
    case None
    with Some show ?thesis by (simp add: try_decrypt_with_old_keys_def)
  next
    case pk: (Some pk)
    have "try_old_keys L pk ct (case old_keys db_profile of None \<Rightarrow> [] | Some ks \<Rightarrow> ks) = None"
    proof (cases "old_keys db_profile")
      case None
      then show ?thesis by simp
    next
      case ks: (Some ks)
      from assms Some pk ks have "\<forall>k \<in> set ks. open_with_old_key L pk ct k = None"
        by blast
      with ks show ?thesis by (simp add: try_old_keys_none)
    qed
    with Some pk show ?thesis by (simp add: try_decrypt_with_old_keys_def)
  qed
qed

lemma receive_one_fallback:
  assumes "get_user_public_key db (sender_username msg) = Some pks" "pks \<noteq> []"
    "open_sealed L (cm_identity_private_key cm) pks (ciphertext msg) = None"
  shows "receive_one L url cm db msg =
     (case try_decrypt_with_old_keys L url (cm_user_data cm) (ciphertext msg) pks of
        None \<Rightarrow> []
      | Some t \<Rightarrow> if t \<noteq> [] then [(sender_username msg, timestamp msg, t)] else [])"
  using assms by (simp add: receive_one_def)

text \<open>
  Claim C7 (fallback resolution). The result of \<open>receive_messages\<close> is the
  concatenation, in batch order, of what each message contributes, so no message stops
  the batch. A message that the current key opens contributes its text. If the current
  key fails, the retired keys of the namespace are tried from the oldest, and the search
  returns the text of the first that opens the message (the message is then listed,
  unless that text is empty). If the current key fails and no retired key opens the
  message, it contributes nothing.
\<close>

theorem fallback_resolution:
  "receive_messages L url cm db =
     concat (map (receive_one L url cm db) (get_messages db (cm_username cm))) \<and>
   (\<forall>(msg :: message) pks t.
      get_user_public_key db (sender_username msg) = Some pks \<and> pks \<noteq> [] \<and>
      open_sealed L (cm_identity_private_key cm) pks (ciphertext msg) = Some t \<longrightarrow>
      receive_one L url cm db msg = [(sender_username msg, timestamp msg, t)]) \<and>
   (\<forall>(msg :: message) pks pk db_profile ks1 key_data ks2 t.
      get_user_public_key db (sender_username msg) = Some pks \<and> pks \<noteq> [] \<and>
      open_sealed L (cm_identity_private_key cm) pks (ciphertext msg) = None \<and>
      load_public_key L pks = Some pk \<and>
      db_profiles (cm_user_data cm) url = Some db_profile \<and>
      old_keys db_profile = Some (ks1 @ key_data # ks2) \<and>
      (\<forall>k \<in> set ks1. open_with_old_key L pk (ciphertext msg) k = None) \<and>
      open_with_old_key L pk (ciphertext msg) key_data = Some t \<longrightarrow>
      try_decrypt_with_old_keys L url (cm_user_data cm) (ciphertext msg) pks = Some t \<and>
      receive_one L url cm db msg =
        (if t \<noteq> [] then [(sender_username msg, timestamp msg, t)] else [])) \<and>
   (\<forall>(msg :: message) pks.
      get_user_public_key db (sender_username msg) = Some pks \<and> pks \<noteq> [] \<and>
      open_sealed L (cm_identity_private_key cm) pks (ciphertext msg) = None \<and>
      (\<forall>pk db_profile ks k.
         load_public_key L pks = Some pk \<and>
         db_profiles (cm_user_data cm) url = Some db_profile \<and>
         old_keys db_profile = Some ks \<and> k \<in> set ks \<longrightarrow>
         open_with_old_key L pk (ciphertext msg) k = None) \<longrightarrow>
      receive_one L url cm db msg = [])"
proof -
  have batch: "receive_messages L url cm db =
      concat (map (receive_one L url cm db) (get_messages db (cm_username cm)))"
    by (rule receive_messages_concat)
  have current: "\<forall>(msg :: message) pks t.
      get_user_public_key db (sender_username msg) = Some pks \<and> pks \<noteq> [] \<and>
      open_sealed L (cm_identity_private_key cm) pks (ciphertext msg) = Some t \<longrightarrow>
      receive_one L url cm db msg = [(sender_username msg, timestamp msg, t)]"
    by (simp add: receive_one_current)
  have retired: "\<forall>(msg :: message) pks pk db_profile ks1 key_data ks2 t.
      get_user_public_key db (sender_username msg) = Some pks \<and> pks \<noteq> [] \<and>
      open_sealed L (cm_identity_private_key cm) pks (ciphertext msg) = None \<and>
      load_public_key L pks = Some pk \<and>
      db_profiles (cm_user_data cm) url = Some db_profile \<and>
      old_keys db_profile = Some (ks1 @ key_data # ks2) \<and>
      (\<forall>k \<in> set ks1. open_with_old_key L pk (ciphertext msg) k = None) \<and>
      open_with_old_key L pk (ciphertext msg) key_data = Some t \<longrightarrow>
      try_decrypt_with_old_keys L url (cm_user_data cm) (ciphertext msg) pks = Some t \<and>
      receive_one L url cm db msg =
        (if t \<noteq> [] then [(sender_username msg, timestamp msg, t)] else [])"
  proof (intro allI impI)
    fix msg :: message and pks pk db_profile ks1 key_data ks2 t
    assume a: "get_user_public_key db (sender_username msg) = Some pks \<and> pks \<noteq> [] \<and>
      open_sealed L (cm_identity_private_key cm) pks (ciphertext msg) = None \<and>
      load_public_key L pks = Some pk \<and>
      db_profiles (cm_user_data cm) url = Some db_profile \<and>
      old_keys db_profile = Some (ks1 @ key_data # ks2) \<and>
      (\<forall>k \<in> set ks1. open_with_old_key L pk (ciphertext msg) k = None) \<and>
      open_with_old_key L pk (ciphertext msg) key_data = Some t"
    then have f: "try_decrypt_with_old_keys L url (cm_user_data cm) (ciphertext msg) pks = Some t"
      by (simp add: fallback_first_success)
    from a have "receive_one L url cm db msg =
       (case try_decrypt_with_old_keys L url (cm_user_data cm) (ciphertext msg) pks of
          None \<Rightarrow> []
        | Some t \<Rightarrow> if t \<noteq> [] then [(sender_username msg, timestamp msg, t)] else [])"
      by (simp add: receive_one_fallback)
    with f show "try_decrypt_with_old_keys L url (cm_user_data cm) (ciphertext msg) pks = Some t \<and>
      receive_one L url cm db msg =
        (if t \<noteq> [] then [(sender_username msg, timestamp msg, t)] else [])"
      by simp
  qed
  have skipped: "\<forall>(msg :: message) pks.
      get_user_public_key db (sender_username msg) = Some pks \<and> pks \<noteq> [] \<and>
      open_sealed L (cm_identity_private_key cm) pks (ciphertext msg) = None \<and>
      (\<forall>pk db_profile ks k.
         load_public_key L pks = Some pk \<and>
         db_profiles (cm_user_data cm) url = Some db_profile \<and>
         old_keys db_profile = Some ks \<and> k \<in> set ks \<longrightarrow>
         open_with_old_key L pk (ciphertext msg) k = None) \<longrightarrow>
      receive_one L url cm db msg = []"
  proof (intro allI impI)
    fix msg :: message and pks
    assume a: "get_user_public_key db (sender_username msg) = Some pks \<and> pks \<noteq> [] \<and>
      open_sealed L (cm_identity_private_key cm) pks (ciphertext msg) = None \<and>
      (\<forall>pk db_profile ks k.
         load_public_key L pks = Some pk \<and>
         db_profiles (cm_user_data cm) url = Some db_profile \<and>
         old_keys db_profile = Some ks \<and> k \<in> set ks \<longrightarrow>
         open_with_old_key L pk (ciphertext msg) k = None)"
    then have "try_decrypt_with_old_keys L url (cm_user_data cm) (ciphertext msg) pks = None"
      by (intro fallback_none) blast
    with a show "receive_one L url cm db msg = []"
      by (simp add: receive_one_fallback)
  qed
  from batch current retired skipped show ?thesis by blast
qed

theorem fallback_resolution_witness:
  "receive_messages sample_lib ''ns1'' veteran_manager busy_relay =
     [(''bob'', ''2025-01-03 11:00:00'', ''hi''), (''bob'', ''2025-01-01 10:00:00'', ''hello'')]"
proof -
  note fr = fallback_resolution [of sample_lib "''ns1''" veteran_manager busy_relay]
  let ?pks = "b64encode sample_lib (sample_key 15)"
  have dir: "get_user_public_key busy_relay ''bob'' = Some ?pks"
    by (simp add: get_user_public_key_def busy_relay_def sample_relay_def sample_public_of)
  have batch: "get_messages busy_relay (cm_username veteran_manager) =
      [broken_message, old_key_message, bob_message]"
    by (simp add: get_messages_def busy_relay_def sample_relay_def veteran_manager_def
        broken_message_def old_key_message_def bob_message_def)
  have prof: "db_profiles (cm_user_data veteran_manager) ''ns1'' =
      Some \<lparr>current_keypair = Some (stored_keypair sample_lib (sample_key 13) ''2025-01-03 09:00:00''),
        old_keys = Some [stored_keypair sample_lib (sample_key 7) ''2025-01-01 09:00:00'',
                         stored_keypair sample_lib (sample_key 11) ''2025-01-02 09:00:00'']\<rparr>"
    by (simp add: veteran_manager_def veteran_record_def)
  have sk: "cm_identity_private_key veteran_manager = sample_key 1"
    by (simp add: veteran_manager_def)
  have old: "open_with_old_key sample_lib pk ct (stored_keypair sample_lib (sample_key x) t) =
      open_box sample_lib (sample_key x) pk ct" for pk ct x t
    by (simp add: open_with_old_key_def stored_keypair_def sample_load_private_key)
  have broken: "receive_one sample_lib ''ns1'' veteran_manager busy_relay broken_message = []"
  proof -
    have "get_user_public_key busy_relay (sender_username broken_message) = Some ?pks \<and>
        ?pks \<noteq> [] \<and>
        open_sealed sample_lib (cm_identity_private_key veteran_manager) ?pks
          (ciphertext broken_message) = None \<and>
        (\<forall>pk db_profile ks k.
           load_public_key sample_lib ?pks = Some pk \<and>
           db_profiles (cm_user_data veteran_manager) ''ns1'' = Some db_profile \<and>
           old_keys db_profile = Some ks \<and> k \<in> set ks \<longrightarrow>
           open_with_old_key sample_lib pk (ciphertext broken_message) k = None)"
      using dir
      by (auto simp add: broken_message_def sample_pks_nonempty open_sealed_def
          sample_load_public_key sample_open_box_broken prof old)
    with fr show ?thesis by blast
  qed
  have retired: "receive_one sample_lib ''ns1'' veteran_manager busy_relay old_key_message =
      [(''bob'', ''2025-01-03 11:00:00'', ''hi'')]"
  proof -
    have "get_user_public_key busy_relay (sender_username old_key_message) = Some ?pks \<and>
        ?pks \<noteq> [] \<and>
        open_sealed sample_lib (cm_identity_private_key veteran_manager) ?pks
          (ciphertext old_key_message) = None \<and>
        load_public_key sample_lib ?pks = Some (sample_key 15) \<and>
        db_profiles (cm_user_data veteran_manager) ''ns1'' =
          Some \<lparr>current_keypair =
                   Some (stored_keypair sample_lib (sample_key 13) ''2025-01-03 09:00:00''),
                old_keys = Some [stored_keypair sample_lib (sample_key 7) ''2025-01-01 09:00:00'',
                         stored_keypair sample_lib (sample_key 11) ''2025-01-02 09:00:00'']\<rparr> \<and>
        old_keys \<lparr>current_keypair =
                   Some (stored_keypair sample_lib (sample_key 13) ''2025-01-03 09:00:00''),
                old_keys = Some [stored_keypair sample_lib (sample_key 7) ''2025-01-01 09:00:00'',
                         stored_keypair sample_lib (sample_key 11) ''2025-01-02 09:00:00'']\<rparr> =
          Some ([stored_keypair sample_lib (sample_key 7) ''2025-01-01 09:00:00''] @
                stored_keypair sample_lib (sample_key 11) ''2025-01-02 09:00:00'' # []) \<and>
        (\<forall>k \<in> set [stored_keypair sample_lib (sample_key 7) ''2025-01-01 09:00:00''].
           open_with_old_key sample_lib (sample_key 15) (ciphertext old_key_message) k = None) \<and>
        open_with_old_key sample_lib (sample_key 15) (ciphertext old_key_message)
          (stored_keypair sample_lib (sample_key 11) ''2025-01-02 09:00:00'') = Some ''hi''"
      using dir
      by (simp add: old_key_message_def sample_pks_nonempty open_sealed_def
          sample_load_public_key sample_open_box prof old sk)
    with fr have "receive_one sample_lib ''ns1'' veteran_manager busy_relay old_key_message =
        (if ''hi'' \<noteq> [] then [(sender_username old_key_message, timestamp old_key_message, ''hi'')]
         else [])"
      by blast
    then show ?thesis by (simp add: old_key_message_def)
  qed
  have current: "receive_one sample_lib ''ns1'' veteran_manager busy_relay bob_message =
      [(''bob'', ''2025-01-01 10:00:00'', ''hello'')]"
  proof -
    have "get_user_public_key busy_relay (sender_username bob_message) = Some ?pks \<and>
        ?pks \<noteq> [] \<and>
        open_sealed sample_lib (cm_identity_private_key veteran_manager) ?pks
          (ciphertext bob_message) = Some ''hello''"
      using dir
      by (simp add: bob_message_def sample_pks_nonempty open_sealed_def
          sample_load_public_key sample_open_box sk)
    with fr have "receive_one sample_lib ''ns1'' veteran_manager busy_relay bob_message =
        [(sender_username bob_message, timestamp bob_message, ''hello'')]"
      by blast
    then show ?thesis by (simp add: bob_message_def)
  qed
  from fr have "receive_messages sample_lib ''ns1'' veteran_manager busy_relay =
      concat (map (receive_one sample_lib ''ns1'' veteran_manager busy_relay)
                (get_messages busy_relay (cm_username veteran_manager)))"
    by blast
  then show ?thesis
    by (simp add: batch broken retired current)
qed

text \<open>
  The two decryption paths differ on an empty text: the current key lists the message,
  the fallback tests the text for truth and drops it.
\<close>

lemma receive_one_empty_text:
  assumes "get_user_public_key db (sender_username msg) = Some pks" "pks \<noteq> []"
    "open_sealed L (cm_identity_private_key cm) pks (ciphertext msg) = None"
    "try_decrypt_with_old_keys L url (cm_user_data cm) (ciphertext msg) pks = Some []"
  shows "receive_one L url cm db msg = []"
  using assms by (simp add: receive_one_def)

text \<open>
  Claim C10 (sending does not depend on the namespace table). \<open>send_message\<close> gives
  the same result, for the same nonce and relay, whatever table of namespace keypairs
  the manager's record holds, also for two managers built by \<open>ChatManager_init\<close> from
  records that differ only in this table. It returns the relay and its boolean only:
  the method assigns to no field of the manager or of the record.
\<close>

theorem send_message_independent_of_namespace_table:
  "send_message L (cm\<lparr>cm_user_data := (cm_user_data cm)\<lparr>db_profiles := table\<rparr>\<rparr>)
       recipient recipient_public_key_str msg nonce now db =
     send_message L cm recipient recipient_public_key_str msg nonce now db \<and>
   map_option (\<lambda>cm. send_message L cm recipient recipient_public_key_str msg nonce now db)
       (ChatManager_init L url sk t (ud\<lparr>db_profiles := table\<rparr>)) =
     map_option (\<lambda>cm. send_message L cm recipient recipient_public_key_str msg nonce now db)
       (ChatManager_init L url sk t ud)"
  by (simp add: send_message_def ChatManager_init_def split: option.splits)

section \<open>Key rotation\<close>

lemma rotate_key_record:
  assumes "db_profiles ud url = Some db_profile"
  shows "fst (snd (rotate_key L url io ud db)) =
     ud\<lparr>db_profiles := (db_profiles ud)(url \<mapsto>
            (retire_current db_profile)\<lparr>current_keypair :=
               Some (stored_keypair L (new_private_key io) (rotation_time io))\<rparr>),
          identity_private_key := b64encode L (new_identity_private_key io),
          identity_public_key := b64encode L (public_of L (new_identity_private_key io))\<rparr>"
  using assms
  by (simp add: rotate_key_def retire_current_def Let_def split: prod.splits sum.splits)

lemma rotate_key_relay:
  assumes "db_profiles ud url = Some db_profile"
  shows "fst (snd (snd (rotate_key L url io ud db))) =
     snd (update_public_key db (username ud)
            (b64encode L (public_of L (new_identity_private_key io))))"
  using assms
  by (simp add: rotate_key_def Let_def split: prod.splits sum.splits)

lemma initialize_chat_keypair_present:
  assumes "db_profiles ud url = Some db_profile" "current_keypair db_profile \<noteq> None"
  shows "initialize_chat_keypair L url sk t ud = ud"
  using assms by (auto simp add: initialize_chat_keypair_def)

lemma ChatManager_init_stored:
  assumes "codec_correct L" "box_correct L" "length skA = 32"
    "identity_private_key ud = b64encode L skA"
    "identity_public_key ud = b64encode L (public_of L skA)"
  shows "ChatManager_init L url sk t ud =
     Some \<lparr>cm_user_data = initialize_chat_keypair L url sk t ud, cm_username = username ud,
           cm_identity_private_key = skA, cm_identity_public_key = public_of L skA\<rparr>"
  using assms
  by (simp add: ChatManager_init_def load_private_key_stored load_public_key_stored)

text \<open>
  The invariant of the key store holds in every record the program produces, as long as
  \<open>PrivateKey.generate()\<close> returns a key that the profile does not hold yet:
  registration creates no profile, a new namespace has no keys, and the first keypair and
  every rotation add a generated keypair only. In such a record the current keypair is
  not in the retired list.
\<close>

lemma record_distinct_register: "record_distinct url (register_user L name sk)"
  by (simp add: record_distinct_def register_user_def)

lemma record_distinct_connect:
  "record_distinct url ud \<Longrightarrow> record_distinct url (connect_profile url' ud)"
  by (auto simp add: record_distinct_def connect_profile_def profile_distinct_def
      retired_keys_def split: option.splits)

lemma record_distinct_initialize:
  assumes "record_distinct url ud"
    and "\<forall>db_profile. db_profiles ud url = Some db_profile \<longrightarrow>
           stored_keypair L sk now \<notin> set (retired_keys db_profile)"
  shows "record_distinct url (initialize_chat_keypair L url sk now ud)"
  using assms
  by (auto simp add: record_distinct_def initialize_chat_keypair_def profile_distinct_def
      retired_keys_def split: option.splits)

lemma record_distinct_rotate:
  assumes "record_distinct url ud"
    and "\<forall>db_profile. db_profiles ud url = Some db_profile \<longrightarrow>
           stored_keypair L (new_private_key io) (rotation_time io) \<notin>
             set (retired_keys db_profile) \<and>
           current_keypair db_profile \<noteq>
             Some (stored_keypair L (new_private_key io) (rotation_time io))"
  shows "record_distinct url (fst (snd (rotate_key L url io ud db)))"
proof (cases "db_profiles ud url")
  case None
  then show ?thesis using assms(1) by (simp add: rotate_key_def)
next
  case (Some db_profile)
  with assms show ?thesis
    by (auto simp add: rotate_key_record [OF Some] record_distinct_def profile_distinct_def
        retired_keys_def retire_current_def split: option.splits)
qed

lemma record_distinct_current_not_retired:
  assumes "record_distinct url ud" "db_profiles ud url = Some db_profile"
    "current_keypair db_profile = Some cur"
  shows "cur \<notin> set (retired_keys db_profile)"
  using assms by (simp add: record_distinct_def profile_distinct_def)

text \<open>
  Claim C8 (rotation appends to the retired list). For a record with a current keypair
  in the namespace, after \<open>rotate_key\<close> the retired list is the previous retired list
  followed by the previous current keypair: every previously retired keypair is still
  there, in its order, nothing is pruned or deduplicated. The previous current keypair
  appears exactly once in it, and the keypair generated by the rotation is current. The
  third hypothesis is the invariant of the key store above: the current keypair is not
  already retired.
\<close>

theorem rotate_key_appends_current:
  assumes "db_profiles ud url = Some db_profile" "current_keypair db_profile = Some cur"
    and "cur \<notin> set (retired_keys db_profile)"
  shows "case rotate_key L url io ud db of
           (ok, ud', db', written) \<Rightarrow>
             (\<exists>renewed.
                db_profiles ud' url = Some renewed \<and>
                retired_keys renewed = retired_keys db_profile @ [cur] \<and>
                count_list (retired_keys renewed) cur = 1 \<and>
                current_keypair renewed =
                  Some (stored_keypair L (new_private_key io) (rotation_time io)))"
proof -
  obtain ok ud' db' written where r: "rotate_key L url io ud db = (ok, ud', db', written)"
    by (cases "rotate_key L url io ud db") auto
  from rotate_key_record [OF assms(1), of L io db] r
  have "ud' = ud\<lparr>db_profiles := (db_profiles ud)(url \<mapsto>
            (retire_current db_profile)\<lparr>current_keypair :=
               Some (stored_keypair L (new_private_key io) (rotation_time io))\<rparr>),
          identity_private_key := b64encode L (new_identity_private_key io),
          identity_public_key := b64encode L (public_of L (new_identity_private_key io))\<rparr>"
    by simp
  then show ?thesis
    using r assms(2,3) by (simp add: retire_current_def retired_keys_def count_list_0_iff)
qed

theorem rotate_key_appends_current_witness:
  "case rotate_key sample_lib ''ns1'' later_io veteran_record sample_relay of
     (ok, ud', db', written) \<Rightarrow>
       retired_keys (the (db_profiles ud' ''ns1'')) =
         [stored_keypair sample_lib (sample_key 7) ''2025-01-01 09:00:00'',
          stored_keypair sample_lib (sample_key 11) ''2025-01-02 09:00:00'',
          stored_keypair sample_lib (sample_key 13) ''2025-01-03 09:00:00''] \<and>
       count_list (retired_keys (the (db_profiles ud' ''ns1'')))
         (stored_keypair sample_lib (sample_key 13) ''2025-01-03 09:00:00'') = 1 \<and>
       current_keypair (the (db_profiles ud' ''ns1'')) =
         Some (stored_keypair sample_lib (sample_key 17) ''2025-01-04 09:00:00'')"
proof -
  let ?p = "\<lparr>current_keypair =
                Some (stored_keypair sample_lib (sample_key 13) ''2025-01-03 09:00:00''),
             old_keys =
                Some [stored_keypair sample_lib (sample_key 7) ''2025-01-01 09:00:00'',
                      stored_keypair sample_lib (sample_key 11) ''2025-01-02 09:00:00'']\<rparr>"
  have p: "db_profiles veteran_record ''ns1'' = Some ?p"
    by (simp add: veteran_record_def)
  have c: "current_keypair ?p =
      Some (stored_keypair sample_lib (sample_key 13) ''2025-01-03 09:00:00'')"
    by simp
  have n: "stored_keypair sample_lib (sample_key 13) ''2025-01-03 09:00:00'' \<notin>
      set (retired_keys ?p)"
    by (simp add: retired_keys_def stored_keypair_def)
  from rotate_key_appends_current [OF p c n, of sample_lib later_io sample_relay]
  show ?thesis
    by (auto simp add: retired_keys_def later_io_def sample_io_def split: prod.splits)
qed

text \<open>
  Claim C9 (rotation due). \<open>check_key_rotation_needed\<close> returns True exactly when the
  record has an entry for the namespace and this entry has no current keypair or a
  current keypair whose \<open>created_at\<close> has another date part than the current time.
\<close>

theorem rotation_needed_iff:
  "check_key_rotation_needed url now ud \<longleftrightarrow>
     (\<exists>db_profile. db_profiles ud url = Some db_profile \<and>
        (case current_keypair db_profile of
           None \<Rightarrow> True
         | Some kp \<Rightarrow> date_part (created_at kp) \<noteq> date_part now))"
  by (auto simp add: check_key_rotation_needed_def Let_def split: option.splits)

theorem rotation_needed_iff_witness:
  "check_key_rotation_needed ''ns1'' ''2025-01-02 09:00:00'' alice_record \<and>
   \<not> check_key_rotation_needed ''ns1'' ''2025-01-01 23:59:59'' alice_record"
  using rotation_needed_iff [of "''ns1''" "''2025-01-02 09:00:00''" alice_record]
    rotation_needed_iff [of "''ns1''" "''2025-01-01 23:59:59''" alice_record]
  by (simp add: alice_record_def stored_keypair_def date_part_def)

text \<open>
  A record without an entry for the namespace, as registration creates it, is reported
  as not due.
\<close>

theorem rotation_needed_absent_counterexample:
  "db_profiles new_record ''ns1'' = None \<and>
   \<not> check_key_rotation_needed ''ns1'' ''2025-01-02 09:00:00'' new_record"
  by (simp add: new_record_def check_key_rotation_needed_def)

text \<open>
  Claim C2 (a message sealed before the rotation). Bob seals \<open>m\<close> against Alice's
  identity public key and the relay holds it. A manager built from Alice's record
  decrypts it. After \<open>rotate_key\<close>, a manager built from the rotated record does not:
  the record holds the new identity key, the retired list holds the old namespace
  keypair, the old identity private key is in neither, and a box opens only with the key
  it was sealed for (the last two hypotheses). The message is dropped.
\<close>

theorem message_lost_after_rotation:
  assumes lib: "codec_correct L" "box_correct L"
    and keys: "length skA = 32" "length skB = 32" "length skN = 32"
      "length (new_identity_private_key io) = 32" "length nonce = 24"
    and alice: "identity_private_key ud = b64encode L skA"
      "identity_public_key ud = b64encode L (public_of L skA)"
      "db_profiles ud url =
         Some \<lparr>current_keypair = Some (stored_keypair L skN t0), old_keys = Some []\<rparr>"
    and relay: "connected db"
      "users_public_keys db bob = Some (b64encode L (public_of L skB))"
      "bob \<noteq> username ud" "bob \<noteq> ''system''"
      "message_log db = [\<lparr>sender_username = bob, recipient_username = username ud,
                          ciphertext = c, timestamp = ts\<rparr>]"
    and sealed: "seal L skB (identity_public_key ud) m nonce = Some c"
    and other_keys:
      "box_decrypt L (new_identity_private_key io) (public_of L skB)
         (box_encrypt L skB (public_of L skA) (str_encode L m) nonce) = None"
      "box_decrypt L skN (public_of L skB)
         (box_encrypt L skB (public_of L skA) (str_encode L m) nonce) = None"
  shows "(\<exists>cm. ChatManager_init L url sk t ud = Some cm \<and>
               receive_messages L url cm db = [(bob, ts, m)]) \<and>
         (case rotate_key L url io ud db of
            (ok, ud', db', written) \<Rightarrow>
              (\<exists>cm'. ChatManager_init L url sk' t' ud' = Some cm' \<and>
                     receive_messages L url cm' db' = []))"
proof
  define enc where "enc = box_encrypt L skB (public_of L skA) (str_encode L m) nonce"
  define pks where "pks = b64encode L (public_of L skB)"
  define msg where "msg = \<lparr>sender_username = bob, recipient_username = username ud,
                          ciphertext = c, timestamp = ts\<rparr>"
  have c: "c = b64encode L enc"
    using sealed lib keys alice(2)
    by (simp add: seal_def load_public_key_stored enc_def)
  have pks_ne: "pks \<noteq> []"
    using lib keys(2) by (simp add: pks_def b64encode_public_nonempty)
  have batch: "get_messages db (username ud) = [msg]"
    using relay by (simp add: get_messages_def msg_def)
  have dir: "get_user_public_key db bob = Some pks"
    using relay by (simp add: get_user_public_key_def pks_def)
  have opens: "box_decrypt L skA (public_of L skB) enc = Some (str_encode L m)"
    using lib(2) keys by (simp add: box_correct_def enc_def)
  show "\<exists>cm. ChatManager_init L url sk t ud = Some cm \<and>
               receive_messages L url cm db = [(bob, ts, m)]"
  proof -
    let ?cm = "\<lparr>cm_user_data = initialize_chat_keypair L url sk t ud, cm_username = username ud,
           cm_identity_private_key = skA, cm_identity_public_key = public_of L skA\<rparr>"
    have i: "ChatManager_init L url sk t ud = Some ?cm"
      using lib keys(1) alice(1,2) by (rule ChatManager_init_stored)
    have "open_sealed L skA pks c = Some m"
      using lib keys(2) opens
      by (simp add: c pks_def open_sealed_stored codec_correct_def)
    then have "receive_one L url ?cm db msg = [(bob, ts, m)]"
      using dir pks_ne by (simp add: receive_one_def msg_def)
    then have "receive_messages L url ?cm db = [(bob, ts, m)]"
      using batch by (simp add: receive_messages_concat)
    with i show ?thesis by blast
  qed
  obtain ok ud' db' written where r: "rotate_key L url io ud db = (ok, ud', db', written)"
    by (cases "rotate_key L url io ud db") auto
  let ?skA' = "new_identity_private_key io"
  let ?renewed = "\<lparr>current_keypair = Some (stored_keypair L (new_private_key io) (rotation_time io)),
                   old_keys = Some [stored_keypair L skN t0]\<rparr>"
  have ud': "ud' = ud\<lparr>db_profiles := (db_profiles ud)(url \<mapsto> ?renewed),
          identity_private_key := b64encode L ?skA',
          identity_public_key := b64encode L (public_of L ?skA')\<rparr>"
    using rotate_key_record [OF alice(3), of L io db] r
    by (simp add: retire_current_def)
  have db': "db' = snd (update_public_key db (username ud) (b64encode L (public_of L ?skA')))"
    using rotate_key_relay [OF alice(3), of L io db] r by simp
  have batch': "get_messages db' (username ud') = [msg]"
    using batch relay(1) by (simp add: db' ud' update_public_key_def get_messages_def)
  have dir': "get_user_public_key db' bob = Some pks"
    using dir relay(1,3) by (simp add: db' update_public_key_def get_user_public_key_def)
  let ?cm' = "\<lparr>cm_user_data = initialize_chat_keypair L url sk' t' ud', cm_username = username ud',
           cm_identity_private_key = ?skA', cm_identity_public_key = public_of L ?skA'\<rparr>"
  have i': "ChatManager_init L url sk' t' ud' = Some ?cm'"
    using lib keys(4) by (rule ChatManager_init_stored) (simp_all add: ud')
  have keep: "initialize_chat_keypair L url sk' t' ud' = ud'"
    by (rule initialize_chat_keypair_present [where db_profile = ?renewed]) (simp_all add: ud')
  have cur: "open_sealed L ?skA' pks c = None"
    using lib keys(2) other_keys(1)
    by (simp add: c pks_def open_sealed_stored enc_def)
  have old: "open_with_old_key L (public_of L skB) c (stored_keypair L skN t0) = None"
    using lib(1) keys(3) other_keys(2)
    by (simp add: c open_with_old_key_stored enc_def)
  have "try_decrypt_with_old_keys L url ud' c pks = None"
    using lib keys(2) old
    by (simp add: try_decrypt_with_old_keys_def ud' pks_def load_public_key_stored)
  then have "receive_one L url ?cm' db' msg = []"
    using dir' pks_ne cur by (simp add: receive_one_def msg_def keep)
  then have "receive_messages L url ?cm' db' = []"
    using batch' by (simp add: receive_messages_concat ud')
  with i' r show "case rotate_key L url io ud db of
            (ok, ud', db', written) \<Rightarrow>
              (\<exists>cm'. ChatManager_init L url sk' t' ud' = Some cm' \<and>
                     receive_messages L url cm' db' = [])"
    by simp
qed

theorem message_lost_after_rotation_witness:
  "(\<exists>cm. ChatManager_init sample_lib ''ns1'' (sample_key 9) ''2025-01-01 09:30:00'' alice_record
            = Some cm \<and>
         receive_messages sample_lib ''ns1'' cm sample_relay =
           [(''bob'', ''2025-01-01 10:00:00'', ''hello'')]) \<and>
   (case rotate_key sample_lib ''ns1'' sample_io alice_record sample_relay of
      (ok, ud', db', written) \<Rightarrow>
        (\<exists>cm'. ChatManager_init sample_lib ''ns1'' (sample_key 9) ''2025-01-03 09:00:00'' ud'
                 = Some cm' \<and>
               receive_messages sample_lib ''ns1'' cm' db' = []))"
proof (rule message_lost_after_rotation [OF sample_codec_correct sample_box_correct,
      where skA = "sample_key 1" and skB = "sample_key 5" and skN = "sample_key 7"
        and nonce = "replicate 24 0" and ?t0.0 = "''2025-01-01 09:00:00''"
        and c = "sample_sealed 5 1 ''hello''"])
  show "seal sample_lib (sample_key 5) (identity_public_key alice_record) ''hello''
          (replicate 24 0) = Some (sample_sealed 5 1 ''hello'')"
    using load_public_key_stored [OF sample_codec_correct sample_box_correct, of "sample_key 1"]
    by (simp add: seal_def alice_record_def sample_sealed_def sample_key_def)
  show "message_log sample_relay =
          [\<lparr>sender_username = ''bob'', recipient_username = username alice_record,
            ciphertext = sample_sealed 5 1 ''hello'', timestamp = ''2025-01-01 10:00:00''\<rparr>]"
    by (simp add: sample_relay_def bob_message_def alice_record_def)
  show "box_decrypt sample_lib (new_identity_private_key sample_io)
          (public_of sample_lib (sample_key 5))
          (box_encrypt sample_lib (sample_key 5) (public_of sample_lib (sample_key 1))
             (str_encode sample_lib ''hello'') (replicate 24 0)) = None"
    by (simp add: sample_io_def sample_public_of sample_box_decrypt)
  show "box_decrypt sample_lib (sample_key 7) (public_of sample_lib (sample_key 5))
          (box_encrypt sample_lib (sample_key 5) (public_of sample_lib (sample_key 1))
             (str_encode sample_lib ''hello'') (replicate 24 0)) = None"
    by (simp add: sample_public_of sample_box_decrypt)
qed (simp_all add: sample_key_def sample_io_def alice_record_def sample_relay_def)

text \<open>
  A manager built before the rotation keeps the identity key it loaded, so in the same
  session the message still opens, at the first attempt and not by the fallback.
\<close>

lemma stale_manager_still_opens:
  assumes "codec_correct L" "box_correct L"
    "length skA = 32" "length skB = 32" "length nonce = 24"
    "cm_identity_private_key cm = skA"
    "get_user_public_key db (sender_username msg) = Some (b64encode L (public_of L skB))"
    "seal L skB (b64encode L (public_of L skA)) m nonce = Some (ciphertext msg)"
  shows "receive_one L url (cm\<lparr>cm_user_data := ud'\<rparr>) db msg =
           [(sender_username msg, timestamp msg, m)]"
proof -
  have c: "ciphertext msg =
      b64encode L (box_encrypt L skB (public_of L skA) (str_encode L m) nonce)"
    using assms by (simp add: seal_def load_public_key_stored)
  have "box_decrypt L skA (public_of L skB)
          (box_encrypt L skB (public_of L skA) (str_encode L m) nonce) = Some (str_encode L m)"
    using assms(2-5) by (simp add: box_correct_def)
  then have "open_sealed L skA (b64encode L (public_of L skB)) (ciphertext msg) = Some m"
    using assms(1,2,4) by (simp add: c open_sealed_stored codec_correct_def)
  then show ?thesis
    using assms(1,2,4,6,7) by (simp add: receive_one_def b64encode_public_nonempty)
qed

end
